theory Spec2Isabelle
  imports Main "HOL-Library.Sublist"
begin

section \<open>Python strings and builtins used by apytor.py\<close>






text \<open>\<open>sep.join(xs)\<close>\<close>

fun join :: "string \<Rightarrow> string list \<Rightarrow> string" where
  "join sep [] = []"
| "join sep [x] = x"
| "join sep (x # y # ys) = x @ sep @ join sep (y # ys)"

text \<open>\<open>s.startswith(p)\<close>\<close>

definition startswith :: "string \<Rightarrow> string \<Rightarrow> bool" where
  "startswith s p = prefix p s"





text \<open>The exceptions that occur in the program; each carries its \<open>str(e)\<close>.\<close>

datatype exn =
    RuntimeError string
  | ValueError string
  | IndexError string
  | OSError string







section \<open>Configuration and environment\<close>

text \<open>
  The module-level constants of the source. The three paths are computed from the
  environment at import time (\<open>Path.home()\<close>, the bundle directory), so they are fields
  like the rest; \<open>source_config\<close> fixes every other constant to the value in the source.
  Paths are held as the strings \<open>str(path)\<close>; the download directory also as
  \<open>as_posix()\<close>. The two retry constants are non-negative integers.
\<close>

record config =
  ARIA2_PATH :: string
  DEFAULT_CONF_DIR :: string
  DEFAULT_CONF_FILE :: string
  DEFAULT_DOWNLOAD_DIR :: string
  DEFAULT_DOWNLOAD_DIR_posix :: string
  MAX_OVERALL_DOWNLOAD_LIMIT :: string
  MAX_OVERALL_UPLOAD_LIMIT :: string
  MAX_CONNECTIONS_PER_SERVER :: string
  RETRY_COUNT :: nat
  RETRY_DELAY_BASE :: nat
  LISTEN_PORT :: string
  ENABLE_DHT :: bool
  ENABLE_PEX :: bool
  EXTRA_TRACKERS :: "string list"

definition source_config :: "string \<Rightarrow> string \<Rightarrow> string \<Rightarrow> string \<Rightarrow> string \<Rightarrow> config" where
  "source_config aria2 conf_dir conf_file dl_dir dl_dir_posix =
     \<lparr> ARIA2_PATH = aria2,
       DEFAULT_CONF_DIR = conf_dir,
       DEFAULT_CONF_FILE = conf_file,
       DEFAULT_DOWNLOAD_DIR = dl_dir,
       DEFAULT_DOWNLOAD_DIR_posix = dl_dir_posix,
       MAX_OVERALL_DOWNLOAD_LIMIT = ''4M'',
       MAX_OVERALL_UPLOAD_LIMIT = ''200K'',
       MAX_CONNECTIONS_PER_SERVER = ''4'',
       RETRY_COUNT = 3,
       RETRY_DELAY_BASE = 5,
       LISTEN_PORT = ''6881'',
       ENABLE_DHT = True,
       ENABLE_PEX = True,
       EXTRA_TRACKERS =
         [''udp://tracker.opentrackr.org:1337/announce'',
          ''udp://open.stealth.si:80/announce'',
          ''udp://tracker.torrent.eu.org:451/announce'',
          ''udp://opentracker.i2p.rocks:6969/announce''] \<rparr>"

text \<open>
  What one \<open>subprocess.Popen\<close> call meets: the call raises, or a child runs, writes
  its lines to the pipe and exits with a return code.
\<close>

datatype proc = Raises exn | Runs "string list" int

text \<open>
  Everything the program reads from outside: the line typed at the prompt, the
  filesystem queries it makes, \<open>str(Path(s))\<close> of the platform, and the behaviour of
  the k-th \<open>Popen\<close> call of the run (counted from 0).
\<close>

record world =
  user_input :: string
  conf_file_exists :: bool
  aria2_exists :: bool
  path_exists :: "string \<Rightarrow> bool"
  path_is_file :: "string \<Rightarrow> bool"
  path_str :: "string \<Rightarrow> string"
  procs :: "nat \<Rightarrow> proc"






section \<open>Utility functions\<close>







section \<open>build_aria2_args\<close>

definition base_args :: "config \<Rightarrow> string list" where
  "base_args cfg =
     (let args =
            [(if ENABLE_DHT cfg then ''--enable-dht=true'' else ''--enable-dht=false''),
             (if ENABLE_PEX cfg then ''--enable-peer-exchange=true''
              else ''--enable-peer-exchange=false''),
             ''--max-overall-download-limit='' @ MAX_OVERALL_DOWNLOAD_LIMIT cfg,
             ''--max-overall-upload-limit='' @ MAX_OVERALL_UPLOAD_LIMIT cfg,
             ''--max-connection-per-server='' @ MAX_CONNECTIONS_PER_SERVER cfg,
             ''--continue=true'',
             ''--auto-file-renaming=true'',
             ''--summary-interval=1'',
             ''--dir='' @ DEFAULT_DOWNLOAD_DIR_posix cfg,
             ''--listen-port='' @ LISTEN_PORT cfg]
      in if EXTRA_TRACKERS cfg \<noteq> []
         then args @ [''--bt-tracker='' @ join '','' (EXTRA_TRACKERS cfg)]
         else args)"

text \<open>\<open>None\<close> is the source's \<open>return None\<close>.\<close>

definition build_aria2_args :: "config \<Rightarrow> world \<Rightarrow> string \<Rightarrow> string list option" where
  "build_aria2_args cfg w input_link =
     (if startswith input_link ''magnet:'' then Some (base_args cfg @ [input_link])
      else if startswith input_link ''http://'' \<or> startswith input_link ''https://''
        then Some (base_args cfg @ [input_link])
      else if path_is_file w input_link
        then Some (base_args cfg @ [''-T'', path_str w input_link])
      else None)"

section \<open>run_with_progress\<close>





section \<open>download_with_retries\<close>



definition fallback_args :: "string list \<Rightarrow> string list" where
  "fallback_args args =
     args @ [''--bt-enable-lpd=true'',
             ''--bt-detach-seed-only=true'',
             ''--timeout=30'',
             ''--connect-timeout=20'',
             ''--retry-wait=10'']"


section \<open>main\<close>


section \<open>Reference definitions\<close>


text \<open>
  The classifier and the argument builder as the specification words them (its sections
  4.1 and 4.2): a launch specification is built first, the argument list from it. The
  source has one function, \<open>build_aria2_args\<close>, for both; these definitions are what
  it is compared with. The flags themselves are the source's (\<open>base_args\<close>); the path
  of a local descriptor is \<open>str(Path(raw))\<close>.
\<close>

datatype launch_spec = Magnet string | DirectURL string | LocalDescriptor string

datatype profile = Normal | Fallback

definition spec_classify :: "world \<Rightarrow> string \<Rightarrow> launch_spec option" where
  "spec_classify w raw =
     (if prefix ''magnet:'' raw then Some (Magnet raw)
      else if prefix ''http://'' raw \<or> prefix ''https://'' raw then Some (DirectURL raw)
      else if path_is_file w raw then Some (LocalDescriptor (path_str w raw))
      else None)"

definition hardening_flags :: "string list" where
  "hardening_flags =
     [''--bt-enable-lpd=true'', ''--bt-detach-seed-only=true'', ''--timeout=30'',
      ''--connect-timeout=20'', ''--retry-wait=10'']"

definition spec_build :: "config \<Rightarrow> launch_spec \<Rightarrow> profile \<Rightarrow> string list" where
  "spec_build cfg spec prof =
     base_args cfg
       @ (case spec of
            Magnet uri \<Rightarrow> [uri]
          | DirectURL uri \<Rightarrow> [uri]
          | LocalDescriptor path \<Rightarrow> [''-T'', path])
       @ (case prof of Normal \<Rightarrow> [] | Fallback \<Rightarrow> hardening_flags)"


text \<open>
  A concrete configuration and environment: the constants of the source, a filesystem
  with the regular file \<open>a.torrent\<close> and the directory \<open>.\<close>, no configuration
  file yet, and the engine in place.
\<close>

definition example_config :: config where
  "example_config =
     source_config ''aria2c.exe'' ''/home/u/.aria2'' ''/home/u/.aria2/aria2.conf''
       ''/home/u/Downloads'' ''/home/u/Downloads''"

definition example_world :: "string \<Rightarrow> (nat \<Rightarrow> proc) \<Rightarrow> world" where
  "example_world typed ps =
     \<lparr> user_input = typed,
       conf_file_exists = False,
       aria2_exists = True,
       path_exists = (\<lambda>p. p = ''.'' \<or> p = ''a.torrent''),
       path_is_file = (\<lambda>p. p = ''a.torrent''),
       path_str = (\<lambda>p. p),
       procs = ps \<rparr>"



section \<open>Traces\<close>
















section \<open>The retry loop\<close>













section \<open>Argument lists\<close>

lemma build_refines_spec:
  "build_aria2_args cfg w input_link = map_option (\<lambda>spec. spec_build cfg spec Normal) (spec_classify w input_link)"
  by (simp add: build_aria2_args_def spec_classify_def spec_build_def startswith_def)

lemma fallback_refines_spec:
  "fallback_args (spec_build cfg spec Normal) = spec_build cfg spec Fallback"
  by (simp add: fallback_args_def spec_build_def hardening_flags_def)

text \<open>
  Claim C3. Whenever \<open>build_aria2_args\<close> yields a normal argument list, the list the
  fallback attempt is launched with is that list followed by exactly the five hardening
  flags \<open>--bt-enable-lpd=true\<close>, \<open>--bt-detach-seed-only=true\<close>, \<open>--timeout=30\<close>,
  \<open>--connect-timeout=20\<close> and \<open>--retry-wait=10\<close>: the normal list is a prefix of
  it, a strict one, and the rest of it is those five flags.
\<close>

theorem fallback_extends_normal:
  assumes "build_aria2_args cfg w input_link = Some args"
  shows "fallback_args args =
           args @ [''--bt-enable-lpd=true'', ''--bt-detach-seed-only=true'', ''--timeout=30'',
                   ''--connect-timeout=20'', ''--retry-wait=10'']
         \<and> prefix args (fallback_args args)
         \<and> strict_prefix args (fallback_args args)
         \<and> length (fallback_args args) = length args + 5
         \<and> drop (length args) (fallback_args args) =
             [''--bt-enable-lpd=true'', ''--bt-detach-seed-only=true'', ''--timeout=30'',
              ''--connect-timeout=20'', ''--retry-wait=10'']"
  by (simp add: fallback_args_def strict_prefix_def)

theorem fallback_extends_normal_witness:
  "build_aria2_args example_config (example_world ''a.torrent'' (\<lambda>k. Runs [] 0)) ''a.torrent''
     = Some (base_args example_config @ [''-T'', ''a.torrent''])
   \<and> strict_prefix (base_args example_config @ [''-T'', ''a.torrent''])
        (fallback_args (base_args example_config @ [''-T'', ''a.torrent'']))"
proof -
  have b: "build_aria2_args example_config (example_world ''a.torrent'' (\<lambda>k. Runs [] 0)) ''a.torrent''
     = Some (base_args example_config @ [''-T'', ''a.torrent''])"
    by (simp add: build_aria2_args_def example_world_def startswith_def)
  show ?thesis using b fallback_extends_normal [OF b] by blast
qed



text \<open>
  Claim C8. The argument list is a function of the launch specification, the configuration
  and the profile alone: two calls, in any two environments and on any two inputs, that
  classify to the same launch specification yield the same normal list and the same
  fallback list, equal in order and contents, namely \<open>spec_build\<close> of that
  specification. The environment enters only through the classification.
\<close>

theorem argument_list_determined_by_spec:
  assumes "spec_classify w1 link1 = Some spec" and "spec_classify w2 link2 = Some spec"
  shows "build_aria2_args cfg w1 link1 = build_aria2_args cfg w2 link2
         \<and> build_aria2_args cfg w1 link1 = Some (spec_build cfg spec Normal)
         \<and> map_option fallback_args (build_aria2_args cfg w1 link1)
             = map_option fallback_args (build_aria2_args cfg w2 link2)
         \<and> map_option fallback_args (build_aria2_args cfg w1 link1)
             = Some (spec_build cfg spec Fallback)"
  using assms by (simp add: build_refines_spec fallback_refines_spec)

theorem argument_list_determined_by_spec_witness:
  "spec_classify (example_world [] (\<lambda>k. Runs [] 0)) ''a.torrent'' = Some (LocalDescriptor ''a.torrent'')
   \<and> spec_classify (example_world ''x'' (\<lambda>k. Raises (OSError []))) ''a.torrent''
        = Some (LocalDescriptor ''a.torrent'')
   \<and> build_aria2_args example_config (example_world [] (\<lambda>k. Runs [] 0)) ''a.torrent''
        = build_aria2_args example_config (example_world ''x'' (\<lambda>k. Raises (OSError []))) ''a.torrent''"
proof -
  have a: "spec_classify (example_world [] (\<lambda>k. Runs [] 0)) ''a.torrent'' = Some (LocalDescriptor ''a.torrent'')"
    by (simp add: spec_classify_def example_world_def)
  have b: "spec_classify (example_world ''x'' (\<lambda>k. Raises (OSError []))) ''a.torrent''
        = Some (LocalDescriptor ''a.torrent'')"
    by (simp add: spec_classify_def example_world_def)
  show ?thesis using a b argument_list_determined_by_spec [OF a b, of example_config] by simp
qed

section \<open>Progress lines\<close>















section \<open>Orchestration and exit codes\<close>

























end
